theory Spec2Isabelle
  imports Main "HOL-Library.Char_ord" "HOL-Library.List_Lexorder" "HOL-Library.Sublist"
begin

section \<open>Python strings\<close>

text \<open>
  A Python \<open>str\<close> is modelled as a \<open>string\<close>: a list of 8-bit characters, read as the
  code points 0..255. Comparison of strings (\<open><\<close>, \<open>\<le>\<close>) is the lexicographic
  order on code points, as in Python.
\<close>

definition is_upper :: "char \<Rightarrow> bool" where
  "is_upper c = (let n = (of_char c :: nat) in
     (65 \<le> n \<and> n \<le> 90) \<or> (192 \<le> n \<and> n \<le> 222 \<and> n \<noteq> 215))"

definition is_lower :: "char \<Rightarrow> bool" where
  "is_lower c = (let n = (of_char c :: nat) in
     (97 \<le> n \<and> n \<le> 122) \<or> (224 \<le> n \<and> n \<le> 254 \<and> n \<noteq> 247))"

definition lower_char :: "char \<Rightarrow> char" where
  "lower_char c = (if is_upper c then char_of ((of_char c :: nat) + 32) else c)"

definition upper_char :: "char \<Rightarrow> char" where
  "upper_char c = (if is_lower c then char_of ((of_char c :: nat) - 32) else c)"

text \<open>\<open>s.lower()\<close>\<close>

definition py_lower :: "string \<Rightarrow> string" where
  "py_lower s = map lower_char s"

text \<open>
  \<open>s.title()\<close>: a letter that follows a letter is lower-cased, any other letter is
  upper-cased.
\<close>

fun title_from :: "bool \<Rightarrow> string \<Rightarrow> string" where
  "title_from prev [] = []"
| "title_from prev (c # cs) =
     (if is_upper c \<or> is_lower c
      then (if prev then lower_char c else upper_char c) # title_from True cs
      else c # title_from False cs)"

definition py_title :: "string \<Rightarrow> string" where
  "py_title s = title_from False s"

text \<open>\<open>c.isspace()\<close> on one character.\<close>

definition is_space :: "char \<Rightarrow> bool" where
  "is_space c = (let n = (of_char c :: nat) in
     (9 \<le> n \<and> n \<le> 13) \<or> (28 \<le> n \<and> n \<le> 32) \<or> n = 133 \<or> n = 160)"

text \<open>\<open>s.strip()\<close>: leading and trailing whitespace removed.\<close>

definition py_strip :: "string \<Rightarrow> string" where
  "py_strip s = rev (dropWhile is_space (rev (dropWhile is_space s)))"

text \<open>
  \<open>s.replace(old, new)\<close> for a non-empty \<open>old\<close>: every non-overlapping occurrence,
  leftmost first. Every call in the program passes a non-empty literal for \<open>old\<close>.
\<close>

function py_replace :: "string \<Rightarrow> string \<Rightarrow> string \<Rightarrow> string" where
  "py_replace old new [] = []"
| "py_replace old new (c # cs) =
     (if old \<noteq> [] \<and> take (length old) (c # cs) = old
      then new @ py_replace old new (drop (length old) (c # cs))
      else c # py_replace old new cs)"
  by pat_completeness auto
termination
  by (relation "measure (\<lambda>(old, new, s). length s)") auto

text \<open>\<open>s.startswith(p)\<close>\<close>

definition startswith :: "string \<Rightarrow> string \<Rightarrow> bool" where
  "startswith s p = (take (length p) s = p)"

text \<open>\<open>sub in s\<close> for strings.\<close>

definition contains :: "string \<Rightarrow> string \<Rightarrow> bool" where
  "contains s sub = list_ex (\<lambda>i. take (length sub) (drop i s) = sub) [0 ..< Suc (length s)]"

text \<open>\<open>sep.join(xs)\<close>\<close>

fun join :: "string \<Rightarrow> string list \<Rightarrow> string" where
  "join sep [] = []"
| "join sep [x] = x"
| "join sep (x # y # ys) = x @ sep @ join sep (y # ys)"

text \<open>\<open>str(n)\<close> for an integer: decimal digits, with a minus sign when negative.\<close>

function string_of_nat :: "nat \<Rightarrow> string" where
  "string_of_nat n =
     (if n < 10 then [char_of (48 + n)]
      else string_of_nat (n div 10) @ [char_of (48 + n mod 10)])"
  by pat_completeness auto
termination
  by (relation "measure id") auto

definition string_of_int :: "int \<Rightarrow> string" where
  "string_of_int i = (if i < 0 then CHR ''-'' # string_of_nat (nat (- i)) else string_of_nat (nat i))"

text \<open>A number written with at least \<open>w\<close> digits, zero-padded (\<open>%02d\<close>, \<open>%04d\<close>).\<close>

definition zero_pad :: "nat \<Rightarrow> nat \<Rightarrow> string" where
  "zero_pad w n = replicate (w - length (string_of_nat n)) CHR ''0'' @ string_of_nat n"

definition hex_digit :: "nat \<Rightarrow> char" where
  "hex_digit n = (if n < 10 then char_of (48 + n) else char_of (87 + n))"

text \<open>
  \<open>repr(s)\<close> of a string: single quotes unless the string has a single quote and no
  double quote; the quote and the backslash escaped, tab, newline and carriage return
  written \<open>\t\<close>, \<open>\n\<close>, \<open>\r\<close>, every other non-printable character \<open>\xhh\<close>.
\<close>

definition repr_char :: "char \<Rightarrow> char \<Rightarrow> string" where
  "repr_char q c = (let n = (of_char c :: nat) in
     if c = q \<or> n = 92 then [CHR 0x5C, c]
     else if n = 9 then [CHR 0x5C, CHR ''t'']
     else if n = 10 then [CHR 0x5C, CHR ''n'']
     else if n = 13 then [CHR 0x5C, CHR ''r'']
     else if n < 32 \<or> n = 127 \<or> (128 \<le> n \<and> n \<le> 160) \<or> n = 173
       then [CHR 0x5C, CHR ''x'', hex_digit (n div 16), hex_digit (n mod 16)]
     else [c])"

definition repr_str :: "string \<Rightarrow> string" where
  "repr_str s = (let q = (if CHR 0x27 \<in> set s \<and> CHR 0x22 \<notin> set s then CHR 0x22 else CHR 0x27)
     in q # concat (map (repr_char q) s) @ [q])"

section \<open>Errors\<close>

text \<open>
  The exceptions the program can raise. A function that may raise returns
  \<open>py_error + 'a\<close>, with \<open>Inl\<close> for the exception.
\<close>

datatype py_error =
    AttributeError
  | TypeError
  | KeyError
  | IndexError
  | OverflowError
  | ValueError string
  | HTTPError
  | JSONDecodeError
  | CalledProcessError

text \<open>Sequencing: the second computation runs only when the first did not raise.\<close>

definition ebind :: "py_error + 'a \<Rightarrow> ('a \<Rightarrow> py_error + 'b) \<Rightarrow> py_error + 'b" where
  "ebind m f = (case m of Inl e \<Rightarrow> Inl e | Inr x \<Rightarrow> f x)"

section \<open>Python values\<close>

text \<open>
  The values of untyped JSON data: \<open>None\<close>, booleans, integers, strings, lists and
  dictionaries with string keys. A dictionary is an association list in insertion order
  with distinct keys.
\<close>

datatype pyval =
    PNone
  | PBool bool
  | PInt int
  | PStr string
  | PList "pyval list"
  | PDict "(string \<times> pyval) list"

type_synonym dict = "(string \<times> pyval) list"

text \<open>\<open>d.get(k)\<close> on a dictionary is \<open>map_of d k\<close>; \<open>d.get(k, default)\<close>:\<close>

definition dict_get :: "dict \<Rightarrow> string \<Rightarrow> pyval \<Rightarrow> pyval" where
  "dict_get d k dflt = (case map_of d k of None \<Rightarrow> dflt | Some v \<Rightarrow> v)"

text \<open>\<open>d[k] = v\<close>: an existing key keeps its position, a new key goes last.\<close>

fun dict_set :: "('k \<times> 'v) list \<Rightarrow> 'k \<Rightarrow> 'v \<Rightarrow> ('k \<times> 'v) list" where
  "dict_set [] k v = [(k, v)]"
| "dict_set ((k', v') # d) k v = (if k' = k then (k, v) # d else (k', v') # dict_set d k v)"

text \<open>\<open>d.update(other)\<close>\<close>

definition dict_update :: "dict \<Rightarrow> dict \<Rightarrow> dict" where
  "dict_update d other = foldl (\<lambda>acc kv. dict_set acc (fst kv) (snd kv)) d other"

text \<open>\<open>x.get(k, default)\<close> on any value: only a dictionary has the method.\<close>

definition py_get :: "pyval \<Rightarrow> string \<Rightarrow> pyval \<Rightarrow> py_error + pyval" where
  "py_get x k dflt = (case x of PDict d \<Rightarrow> Inr (dict_get d k dflt) | _ \<Rightarrow> Inl AttributeError)"

text \<open>\<open>x[k]\<close> with a string key.\<close>

definition py_item :: "pyval \<Rightarrow> string \<Rightarrow> py_error + pyval" where
  "py_item x k =
     (case x of
        PDict d \<Rightarrow> (case map_of d k of None \<Rightarrow> Inl KeyError | Some v \<Rightarrow> Inr v)
      | _ \<Rightarrow> Inl TypeError)"

text \<open>\<open>bool(x)\<close>\<close>

fun py_truthy :: "pyval \<Rightarrow> bool" where
  "py_truthy PNone = False"
| "py_truthy (PBool b) = b"
| "py_truthy (PInt i) = (i \<noteq> 0)"
| "py_truthy (PStr s) = (s \<noteq> [])"
| "py_truthy (PList xs) = (xs \<noteq> [])"
| "py_truthy (PDict d) = (d \<noteq> [])"

text \<open>\<open>repr(x)\<close> and \<open>str(x)\<close>, the latter used by every f-string.\<close>

fun py_repr :: "pyval \<Rightarrow> string" where
  "py_repr PNone = ''None''"
| "py_repr (PBool b) = (if b then ''True'' else ''False'')"
| "py_repr (PInt i) = string_of_int i"
| "py_repr (PStr s) = repr_str s"
| "py_repr (PList xs) = ''['' @ join '', '' (map py_repr xs) @ '']''"
| "py_repr (PDict d) =
     ''{'' @ join '', '' (map (\<lambda>kv. repr_str (fst kv) @ '': '' @ py_repr (snd kv)) d) @ ''}''"

definition py_str :: "pyval \<Rightarrow> string" where
  "py_str x = (case x of PStr s \<Rightarrow> s | _ \<Rightarrow> py_repr x)"

text \<open>Iteration (\<open>for x in v\<close>, \<open>list.extend(v)\<close>): a dictionary yields its keys, a
  string its characters; the other values are not iterable.\<close>

definition py_iter :: "pyval \<Rightarrow> py_error + pyval list" where
  "py_iter v =
     (case v of
        PList xs \<Rightarrow> Inr xs
      | PDict d \<Rightarrow> Inr (map (\<lambda>kv. PStr (fst kv)) d)
      | PStr s \<Rightarrow> Inr (map (\<lambda>c. PStr [c]) s)
      | _ \<Rightarrow> Inl TypeError)"

text \<open>\<open>len(v)\<close>\<close>

definition py_len :: "pyval \<Rightarrow> py_error + nat" where
  "py_len v =
     (case v of
        PList xs \<Rightarrow> Inr (length xs)
      | PDict d \<Rightarrow> Inr (length d)
      | PStr s \<Rightarrow> Inr (length s)
      | _ \<Rightarrow> Inl TypeError)"

text \<open>\<open>v[0]\<close>. A dictionary has string keys only, so the key \<open>0\<close> is never present.\<close>

definition py_first :: "pyval \<Rightarrow> py_error + pyval" where
  "py_first v =
     (case v of
        PList xs \<Rightarrow> (case xs of [] \<Rightarrow> Inl IndexError | x # _ \<Rightarrow> Inr x)
      | PStr s \<Rightarrow> (case s of [] \<Rightarrow> Inl IndexError | c # _ \<Rightarrow> Inr (PStr [c]))
      | PDict d \<Rightarrow> Inl KeyError
      | _ \<Rightarrow> Inl TypeError)"

text \<open>\<open>v[:n]\<close>: strings and lists can be sliced.\<close>

definition py_take :: "nat \<Rightarrow> pyval \<Rightarrow> py_error + pyval" where
  "py_take n v =
     (case v of
        PStr s \<Rightarrow> Inr (PStr (take n s))
      | PList xs \<Rightarrow> Inr (PList (take n xs))
      | _ \<Rightarrow> Inl TypeError)"

text \<open>A method of \<open>str\<close> called on any value: \<open>AttributeError\<close> unless it is a string.\<close>

definition as_str :: "pyval \<Rightarrow> py_error + string" where
  "as_str v = (case v of PStr s \<Rightarrow> Inr s | _ \<Rightarrow> Inl AttributeError)"

section \<open>Dates (utils.py)\<close>

text \<open>
  A \<open>datetime\<close> is represented by the proleptic Gregorian ordinal of its date
  (\<open>toordinal()\<close>: 0001-01-01 is day 1) and its time of day. \<open>datetime.now()\<close> is the
  parameter \<open>now\<close> of every function that reads the clock.
\<close>

record datetime =
  ordinal :: int
  hour :: nat
  minute :: nat
  second :: nat
  microsecond :: nat

text \<open>\<open>date.max.toordinal()\<close>, the ordinal of 9999-12-31.\<close>

definition max_ordinal :: int where
  "max_ordinal = 3652059"

text \<open>\<open>dt.weekday()\<close>: Monday is 0, Sunday is 6.\<close>

definition weekday :: "datetime \<Rightarrow> int" where
  "weekday dt = (ordinal dt + 6) mod 7"

text \<open>\<open>dt.replace(hour=0, minute=0, second=0, microsecond=0)\<close>\<close>

definition midnight :: "datetime \<Rightarrow> datetime" where
  "midnight dt = dt\<lparr>hour := 0, minute := 0, second := 0, microsecond := 0\<rparr>"

text \<open>\<open>dt - timedelta(days=k)\<close>; a result outside the years 1..9999 raises \<open>OverflowError\<close>.\<close>

definition sub_days :: "datetime \<Rightarrow> int \<Rightarrow> py_error + datetime" where
  "sub_days dt k =
     (if 1 \<le> ordinal dt - k \<and> ordinal dt - k \<le> max_ordinal
      then Inr (dt\<lparr>ordinal := ordinal dt - k\<rparr>)
      else Inl OverflowError)"

text \<open>
  The calendar date of an ordinal, as the \<open>datetime\<close> module computes it
  (\<open>_ord2ymd\<close>): year, month and day.
\<close>

definition days_before_month :: "int list" where
  "days_before_month = [0, 0, 31, 59, 90, 120, 151, 181, 212, 243, 273, 304, 334]"

definition days_in_month :: "int list" where
  "days_in_month = [0, 31, 28, 31, 30, 31, 30, 31, 31, 30, 31, 30, 31]"

definition ord2ymd :: "int \<Rightarrow> int \<times> int \<times> int" where
  "ord2ymd n0 =
     (let n = n0 - 1;
          n400 = n div 146097; n = n mod 146097;
          n100 = n div 36524; n = n mod 36524;
          n4 = n div 1461; n = n mod 1461;
          n1 = n div 365; n = n mod 365;
          year = n400 * 400 + 1 + n100 * 100 + n4 * 4 + n1
      in if n1 = 4 \<or> n100 = 4 then (year - 1, 12, 31)
         else
           let leapyear = (n1 = 3 \<and> (n4 \<noteq> 24 \<or> n100 = 3));
               month = (n + 50) div 32;
               preceding = days_before_month ! nat month
                           + (if month > 2 \<and> leapyear then 1 else 0)
           in if preceding > n
              then let month = month - 1;
                       preceding = preceding - (days_in_month ! nat month
                                   + (if month = 2 \<and> leapyear then 1 else 0))
                   in (year, month, n - preceding + 1)
              else (year, month, n - preceding + 1))"

definition month_names :: "string list" where
  "month_names = ['''', ''January'', ''February'', ''March'', ''April'', ''May'', ''June'',
     ''July'', ''August'', ''September'', ''October'', ''November'', ''December'']"

text \<open>\<open>dt.strftime('%B %d, %Y')\<close>\<close>

definition strftime_long :: "datetime \<Rightarrow> string" where
  "strftime_long dt = (case ord2ymd (ordinal dt) of (y, m, d) \<Rightarrow>
     month_names ! nat m @ '' '' @ zero_pad 2 (nat d) @ '', '' @ zero_pad 4 (nat y))"

text \<open>\<open>dt.strftime('%Y-%m-%d')\<close>\<close>

definition strftime_ymd :: "datetime \<Rightarrow> string" where
  "strftime_ymd dt = (case ord2ymd (ordinal dt) of (y, m, d) \<Rightarrow>
     zero_pad 4 (nat y) @ ''-'' @ zero_pad 2 (nat m) @ ''-'' @ zero_pad 2 (nat d))"

text \<open>\<open>dt.isoformat()\<close>: the microseconds are written only when they are not zero.\<close>

definition isoformat :: "datetime \<Rightarrow> string" where
  "isoformat dt =
     strftime_ymd dt @ ''T'' @ zero_pad 2 (hour dt) @ '':'' @ zero_pad 2 (minute dt)
       @ '':'' @ zero_pad 2 (second dt)
       @ (if microsecond dt = 0 then [] else ''.'' @ zero_pad 6 (microsecond dt))"

subsection \<open>The date expression resolver\<close>

definition get_last_workday :: "datetime \<Rightarrow> py_error + datetime" where
  "get_last_workday now =
     (let today = midnight now;
          dow = weekday today;
          days_back = (if dow = 0 then 3 else 1)
      in sub_days today days_back)"

definition get_last_weekday :: "datetime \<Rightarrow> int \<Rightarrow> py_error + datetime" where
  "get_last_weekday now target_weekday =
     (let today = midnight now;
          current_weekday = weekday today;
          days_back = (if current_weekday \<ge> target_weekday
                       then current_weekday - target_weekday
                       else 7 - (target_weekday - current_weekday));
          days_back = (if days_back = 0 then 7 else days_back)
      in sub_days today days_back)"

definition weekday_map :: "(string \<times> int) list" where
  "weekday_map =
     [(''monday'', 0), (''mon'', 0), (''tuesday'', 1), (''tue'', 1),
      (''wednesday'', 2), (''wed'', 2), (''thursday'', 3), (''thu'', 3),
      (''friday'', 4), (''fri'', 4), (''saturday'', 5), (''sat'', 5),
      (''sunday'', 6), (''sun'', 6)]"

text \<open>
  \<open>parse_date\<close>. The generic parser of the \<open>dateutil\<close> library is the parameter
  \<open>dateutil_parse\<close>; its \<open>ValueError\<close> and \<open>TypeError\<close> are caught, any other
  exception propagates.
\<close>

definition parse_date ::
  "datetime \<Rightarrow> (string \<Rightarrow> py_error + datetime) \<Rightarrow> string \<Rightarrow> py_error + datetime" where
  "parse_date now dateutil_parse date_expression =
     (if date_expression = [] then get_last_workday now
      else
        let date_expression = py_strip (py_lower date_expression) in
        if date_expression = ''yesterday'' then sub_days (midnight now) 1
        else if date_expression = ''today'' then Inr (midnight now)
        else if startswith date_expression ''last ''
                \<and> map_of weekday_map (drop 5 date_expression) \<noteq> None
        then get_last_weekday now (the (map_of weekday_map (drop 5 date_expression)))
        else if map_of weekday_map date_expression \<noteq> None
        then get_last_weekday now (the (map_of weekday_map date_expression))
        else
          (case dateutil_parse date_expression of
             Inr d \<Rightarrow> Inr (midnight d)
           | Inl (ValueError m) \<Rightarrow> get_last_workday now
           | Inl TypeError \<Rightarrow> get_last_workday now
           | Inl e \<Rightarrow> Inl e))"

text \<open>\<open>get_utc_date_range\<close>: the day at 00:00:00Z to the next day at 07:59:59Z.\<close>

definition get_utc_date_range :: "datetime \<Rightarrow> py_error + string \<times> string" where
  "get_utc_date_range target =
     (let start_time = strftime_ymd target @ ''T00:00:00Z'' in
      ebind (sub_days target (- 1)) (\<lambda>next_day.
        Inr (start_time, strftime_ymd next_day @ ''T07:59:59Z'')))"

section \<open>Events and their classification (github.py)\<close>

text \<open>
  The two adapters (\<open>standup_server/github.py\<close> over HTTP, \<open>mcp_server_standup/github.py\<close>
  over the \<open>gh\<close> command line) share the event classes and the classifier word for word.
\<close>

record GitHubEvent =
  event_type :: string
  created_at :: string
  repo :: string
  actor :: string
  payload :: dict
  processed_info :: dict

text \<open>
  The body of the commit loop of \<open>_process_push_event\<close>: the commits to append to
  \<open>unique_commits\<close> (none or one) and the deduplication set afterwards.
\<close>

definition commit_key :: "string \<Rightarrow> string" where
  "commit_key message = py_replace '' '' ''_'' (py_lower message)"

definition process_commit ::
  "string \<Rightarrow> pyval \<Rightarrow> string set \<Rightarrow> py_error + pyval list \<times> string set" where
  "process_commit repo_name commit seen =
     ebind (py_get commit ''message'' (PStr [])) (\<lambda>m.
     ebind (as_str m) (\<lambda>raw_message.
     let message = py_strip raw_message in
     ebind (py_get commit ''sha'' (PStr [])) (\<lambda>sha.
     if message = [] \<or> \<not> py_truthy sha then Inr ([], seen)
     else if commit_key message \<notin> seen
     then ebind (py_take 7 sha) (\<lambda>short_sha.
       Inr ([PDict [(''message'', PStr message),
                    (''sha'', short_sha),
                    (''full_sha'', sha),
                    (''link'', PStr (''https://github.com/'' @ repo_name @ ''/commit/''
                                      @ py_str sha))]],
            insert (commit_key message) seen))
     else Inr ([], seen))))"

fun process_commits ::
  "string \<Rightarrow> pyval list \<Rightarrow> string set \<Rightarrow> py_error + pyval list \<times> string set" where
  "process_commits repo_name [] seen = Inr ([], seen)"
| "process_commits repo_name (commit # commits) seen =
     (case process_commit repo_name commit seen of
        Inl e \<Rightarrow> Inl e
      | Inr (new, seen') \<Rightarrow>
          (case process_commits repo_name commits seen' of
             Inl e \<Rightarrow> Inl e
           | Inr (unique_commits, seen'') \<Rightarrow> Inr (new @ unique_commits, seen'')))"

definition process_push_event ::
  "GitHubEvent \<Rightarrow> string set \<Rightarrow> py_error + dict \<times> string set" where
  "process_push_event event seen =
     ebind (as_str (dict_get (payload event) ''ref'' (PStr []))) (\<lambda>ref.
     let branch_name = py_replace ''refs/heads/'' [] ref;
         size_v = dict_get (payload event) ''size'' (PInt 0);
         processed =
           [(''branch'', PStr branch_name),
            (''commit_count'', size_v),
            (''links'', PList [PStr (''https://github.com/'' @ repo event @ ''/tree/''
                                      @ branch_name)]),
            (''details'', PList [PStr (''Pushed '' @ py_str size_v @ '' commits to ''
                                        @ branch_name)])]
     in ebind (py_iter (dict_get (payload event) ''commits'' (PList []))) (\<lambda>commits.
        ebind (process_commits (repo event) commits seen) (\<lambda>(unique_commits, seen').
          Inr (dict_set processed ''commits'' (PList unique_commits), seen'))))"

definition process_pr_event :: "GitHubEvent \<Rightarrow> py_error + dict" where
  "process_pr_event event =
     (let pr = dict_get (payload event) ''pull_request'' (PDict []);
          action = dict_get (payload event) ''action'' (PStr [])
      in ebind (py_get pr ''number'' (PStr [])) (\<lambda>number.
         ebind (py_get pr ''title'' (PStr [])) (\<lambda>title.
           Inr [(''pr_number'', number),
                (''action'', action),
                (''title'', title),
                (''links'', PList [PStr (''https://github.com/'' @ repo event @ ''/pull/''
                                          @ py_str number)]),
                (''details'', PList [PStr (''PR #'' @ py_str number @ '': '' @ py_str action
                                            @ '' - '' @ py_str title)])])))"

text \<open>\<open>"pull_request" in issue\<close>: membership in a dictionary, a list or a string.\<close>

definition py_in :: "string \<Rightarrow> pyval \<Rightarrow> py_error + bool" where
  "py_in k v =
     (case v of
        PDict d \<Rightarrow> Inr (map_of d k \<noteq> None)
      | PList xs \<Rightarrow> Inr (PStr k \<in> set xs)
      | PStr s \<Rightarrow> Inr (contains s k)
      | _ \<Rightarrow> Inl TypeError)"

definition process_comment_event :: "GitHubEvent \<Rightarrow> py_error + dict" where
  "process_comment_event event =
     (let issue = dict_get (payload event) ''issue'' (PDict [])
      in ebind (py_get issue ''number'' (PStr [])) (\<lambda>number.
         ebind (py_in ''pull_request'' issue) (\<lambda>is_pr.
         let link_type = (if is_pr then ''pull'' else ''issues'')
         in Inr [(''issue_number'', number),
                 (''is_pull_request'', PBool is_pr),
                 (''links'', PList [PStr (''https://github.com/'' @ repo event @ ''/''
                                           @ link_type @ ''/'' @ py_str number)]),
                 (''details'', PList [PStr (''Commented on ''
                                             @ (if is_pr then ''PR'' else ''issue'')
                                             @ '' #'' @ py_str number)])])))"

definition process_review_event :: "GitHubEvent \<Rightarrow> py_error + dict" where
  "process_review_event event =
     (let pr = dict_get (payload event) ''pull_request'' (PDict []);
          review = dict_get (payload event) ''review'' (PDict [])
      in ebind (py_get pr ''number'' (PStr [])) (\<lambda>number.
         ebind (py_get review ''state'' (PStr [])) (\<lambda>state.
           Inr [(''pr_number'', number),
                (''review_state'', state),
                (''links'', PList [PStr (''https://github.com/'' @ repo event @ ''/pull/''
                                          @ py_str number)]),
                (''details'', PList [PStr (''Reviewed PR #'' @ py_str number @ '': ''
                                            @ py_str state)])])))"

definition process_ref_event :: "GitHubEvent \<Rightarrow> py_error + dict" where
  "process_ref_event event =
     (let ref_type = dict_get (payload event) ''ref_type'' (PStr []);
          ref = dict_get (payload event) ''ref'' (PStr []);
          action = (if event_type event = ''CreateEvent'' then ''Created'' else ''Deleted'')
      in Inr [(''ref_type'', ref_type),
              (''ref'', ref),
              (''action'', PStr (py_lower action)),
              (''details'', PList [PStr (action @ '' '' @ py_str ref_type @ '' ''
                                          @ [CHR 0x27] @ py_str ref @ [CHR 0x27])])])"

text \<open>
  \<open>_process_event\<close>, the classifier. It reads and updates the deduplication set
  \<open>self._seen_commits\<close>, which the model passes in and returns.
\<close>

definition process_event ::
  "GitHubEvent \<Rightarrow> string set \<Rightarrow> py_error + dict \<times> string set" where
  "process_event event seen =
     (let processed = [(''links'', PList []), (''details'', PList []), (''commits'', PList [])]
      in if event_type event = ''PushEvent''
         then ebind (process_push_event event seen) (\<lambda>(p, seen').
                Inr (dict_update processed p, seen'))
         else if event_type event = ''PullRequestEvent''
         then ebind (process_pr_event event) (\<lambda>p. Inr (dict_update processed p, seen))
         else if event_type event = ''IssueCommentEvent''
         then ebind (process_comment_event event) (\<lambda>p. Inr (dict_update processed p, seen))
         else if event_type event = ''PullRequestReviewEvent''
         then ebind (process_review_event event) (\<lambda>p. Inr (dict_update processed p, seen))
         else if event_type event \<in> set [''CreateEvent'', ''DeleteEvent'']
         then ebind (process_ref_event event) (\<lambda>p. Inr (dict_update processed p, seen))
         else Inr (processed, seen))"


section \<open>Fetching activity (github.py)\<close>

text \<open>
  A record of the external source's event feed, reduced to what the adapter reads from
  it: every field holds what the corresponding \<open>.get(key, default)\<close> returns, the default
  when the key is absent (\<open>raw_actor_login\<close> is \<open>actor.login\<close>, \<open>raw_repo_name\<close> is
  \<open>repo.name\<close>).
\<close>

record RawEvent =
  raw_type :: string
  raw_created_at :: string
  raw_actor_login :: string
  raw_repo_name :: string
  raw_payload :: dict

text \<open>
  The answer to one page request: the request fails (\<open>httpx.HTTPError\<close>, or
  \<open>CalledProcessError\<close> of the \<open>gh\<close> process), the body is not JSON, or it is a list of
  event records.
\<close>

datatype response = Failed | Malformed | Page "RawEvent list"

datatype variant = Http | Cli

definition matches_username :: "string \<Rightarrow> string \<Rightarrow> bool" where
  "matches_username actor_login user = (py_lower actor_login = py_lower user)"

text \<open>\<open>if username:\<close> on an optional string.\<close>

definition truthy_opt :: "string option \<Rightarrow> bool" where
  "truthy_opt s = (case s of None \<Rightarrow> False | Some x \<Rightarrow> x \<noteq> [])"

text \<open>
  The loop over one page of \<open>_get_repo_events\<close>: the events kept (\<open>filtered_events\<close>),
  whether the loop returned from the function at a record older than the window, and the
  deduplication set afterwards.
\<close>

fun filter_events ::
  "string \<Rightarrow> string option \<Rightarrow> string \<Rightarrow> string \<Rightarrow> RawEvent list \<Rightarrow> string set
     \<Rightarrow> py_error + GitHubEvent list \<times> bool \<times> string set" where
  "filter_events repo_name user start_time end_time [] seen = Inr ([], False, seen)"
| "filter_events repo_name user start_time end_time (event_data # data) seen =
     (let created = raw_created_at event_data in
      if \<not> (start_time \<le> created \<and> created \<le> end_time)
      then (if created < start_time then Inr ([], True, seen)
            else filter_events repo_name user start_time end_time data seen)
      else if truthy_opt user \<and> \<not> matches_username (raw_actor_login event_data) (the user)
      then filter_events repo_name user start_time end_time data seen
      else
        let github_event = \<lparr>event_type = raw_type event_data, created_at = created,
              repo = repo_name, actor = raw_actor_login event_data,
              payload = raw_payload event_data, processed_info = []\<rparr>
        in case process_event github_event seen of
             Inl e \<Rightarrow> Inl e
           | Inr (p, seen') \<Rightarrow>
               (case filter_events repo_name user start_time end_time data seen' of
                  Inl e \<Rightarrow> Inl e
                | Inr (filtered, returned, seen'') \<Rightarrow>
                    Inr (github_event\<lparr>processed_info := p\<rparr> # filtered, returned, seen'')))"

text \<open>
  The pagination loop of \<open>_get_repo_events\<close>, from page \<open>page\<close> on. Next to the result
  it returns the page numbers it requested, in order. An unparsable body ends the loop in
  the command-line adapter and propagates as an exception in the HTTP adapter, which
  catches \<open>httpx.HTTPError\<close> only.
\<close>

function repo_events_loop ::
  "variant \<Rightarrow> (nat \<Rightarrow> response) \<Rightarrow> string \<Rightarrow> string option \<Rightarrow> string \<Rightarrow> string
     \<Rightarrow> nat \<Rightarrow> GitHubEvent list \<Rightarrow> string set
     \<Rightarrow> (py_error + GitHubEvent list \<times> string set) \<times> nat list" where
  "repo_events_loop v fetch repo_name user start_time end_time page evs seen =
     (if page \<le> 50
      then
        (case fetch page of
           Failed \<Rightarrow> (Inr (evs, seen), [page])
         | Malformed \<Rightarrow> (if v = Cli then Inr (evs, seen) else Inl JSONDecodeError, [page])
         | Page data \<Rightarrow>
             if data = [] then (Inr (evs, seen), [page])
             else
               (case filter_events repo_name user start_time end_time data seen of
                  Inl e \<Rightarrow> (Inl e, [page])
                | Inr (filtered, returned, seen') \<Rightarrow>
                    if returned \<or> length data < 100
                       \<or> raw_created_at (last data) < start_time
                    then (Inr (evs @ filtered, seen'), [page])
                    else
                      (case repo_events_loop v fetch repo_name user start_time end_time
                              (page + 1) (evs @ filtered) seen' of
                         (r, pages) \<Rightarrow> (r, page # pages))))
      else (Inr (evs, seen), []))"
  by pat_completeness auto
termination
  by (relation "measure (\<lambda>(v, fetch, repo_name, user, start_time, end_time, page, evs, seen).
        51 - page)") auto

declare repo_events_loop.simps [simp del]

definition get_repo_events ::
  "variant \<Rightarrow> (nat \<Rightarrow> response) \<Rightarrow> string \<Rightarrow> string option \<Rightarrow> string \<Rightarrow> string
     \<Rightarrow> string set \<Rightarrow> (py_error + GitHubEvent list \<times> string set) \<times> nat list" where
  "get_repo_events v fetch repo_name user start_time end_time seen =
     repo_events_loop v fetch repo_name user start_time end_time 1 [] seen"

text \<open>
  \<open>_get_user_events\<close> of the command-line adapter: the same loop over the user's public
  feed, where every record names its repository and no actor filter applies.
\<close>

fun filter_user_events ::
  "string \<Rightarrow> string \<Rightarrow> RawEvent list \<Rightarrow> string set
     \<Rightarrow> py_error + GitHubEvent list \<times> bool \<times> string set" where
  "filter_user_events start_time end_time [] seen = Inr ([], False, seen)"
| "filter_user_events start_time end_time (event_data # data) seen =
     (let created = raw_created_at event_data in
      if \<not> (start_time \<le> created \<and> created \<le> end_time)
      then (if created < start_time then Inr ([], True, seen)
            else filter_user_events start_time end_time data seen)
      else if raw_repo_name event_data = []
      then filter_user_events start_time end_time data seen
      else
        let github_event = \<lparr>event_type = raw_type event_data, created_at = created,
              repo = raw_repo_name event_data, actor = raw_actor_login event_data,
              payload = raw_payload event_data, processed_info = []\<rparr>
        in case process_event github_event seen of
             Inl e \<Rightarrow> Inl e
           | Inr (p, seen') \<Rightarrow>
               (case filter_user_events start_time end_time data seen' of
                  Inl e \<Rightarrow> Inl e
                | Inr (filtered, returned, seen'') \<Rightarrow>
                    Inr (github_event\<lparr>processed_info := p\<rparr> # filtered, returned, seen'')))"

function user_events_loop ::
  "(nat \<Rightarrow> response) \<Rightarrow> string \<Rightarrow> string \<Rightarrow> nat \<Rightarrow> GitHubEvent list \<Rightarrow> string set
     \<Rightarrow> (py_error + GitHubEvent list \<times> string set) \<times> nat list" where
  "user_events_loop fetch start_time end_time page evs seen =
     (if page \<le> 50
      then
        (case fetch page of
           Failed \<Rightarrow> (Inr (evs, seen), [page])
         | Malformed \<Rightarrow> (Inr (evs, seen), [page])
         | Page data \<Rightarrow>
             if data = [] then (Inr (evs, seen), [page])
             else
               (case filter_user_events start_time end_time data seen of
                  Inl e \<Rightarrow> (Inl e, [page])
                | Inr (filtered, returned, seen') \<Rightarrow>
                    if returned \<or> length data < 100
                       \<or> raw_created_at (last data) < start_time
                    then (Inr (evs @ filtered, seen'), [page])
                    else
                      (case user_events_loop fetch start_time end_time
                              (page + 1) (evs @ filtered) seen' of
                         (r, pages) \<Rightarrow> (r, page # pages))))
      else (Inr (evs, seen), []))"
  by pat_completeness auto
termination
  by (relation "measure (\<lambda>(fetch, start_time, end_time, page, evs, seen). 51 - page)") auto

declare user_events_loop.simps [simp del]

definition get_user_events ::
  "(nat \<Rightarrow> response) \<Rightarrow> string \<Rightarrow> string \<Rightarrow> string set
     \<Rightarrow> (py_error + GitHubEvent list \<times> string set) \<times> nat list" where
  "get_user_events fetch start_time end_time seen =
     user_events_loop fetch start_time end_time 1 [] seen"

subsection \<open>Which repositories a fetch queries\<close>

text \<open>
  The configuration read from the environment (\<open>GITHUB_ORG\<close>, \<open>GITHUB_REPOS\<close>), and the
  external source as the adapter sees it: what \<open>_get_org_repos\<close>, \<open>_get_user_repos\<close> and
  \<open>get_current_user\<close> return, and the answer to every page request.
\<close>

record config =
  github_org :: "string option"
  github_repos :: "string option"

record world =
  org_repos :: "string list"
  user_repos :: "string \<Rightarrow> string list"
  current_user :: "string option"
  repo_events_page :: "string \<Rightarrow> nat \<Rightarrow> response"
  user_events_page :: "string \<Rightarrow> nat \<Rightarrow> response"

text \<open>\<open>s.split(sep)\<close> on a one-character separator.\<close>

fun split_on :: "char \<Rightarrow> string \<Rightarrow> string list" where
  "split_on sep [] = [[]]"
| "split_on sep (c # cs) =
     (if c = sep then [] # split_on sep cs
      else (case split_on sep cs of [] \<Rightarrow> [[c]] | w # ws \<Rightarrow> (c # w) # ws))"

text \<open>\<open>[repo.strip() for repo in xs if repo.strip()]\<close>\<close>

definition strip_names :: "string list \<Rightarrow> string list" where
  "strip_names xs = map py_strip (filter (\<lambda>r. py_strip r \<noteq> []) xs)"

text \<open>The source of the repository list that a fetch settles on.\<close>

datatype repo_source = ReposArgument | ConfiguredRepos | OrgRepos | UserRepos | UserFeed

definition config_error :: py_error where
  "config_error = ValueError
     ''Either GITHUB_ORG or GITHUB_REPOS environment variable is required when not specifying repos''"

text \<open>
  The branches of \<open>get_activity\<close> of the HTTP adapter (\<open>standup_server/github.py\<close>) that
  choose the repositories: the \<open>repos\<close> argument, else the organization's listing, else
  \<open>GITHUB_REPOS\<close>, else an error.
\<close>

definition resolve_repos_http ::
  "config \<Rightarrow> world \<Rightarrow> string list option \<Rightarrow> py_error + repo_source \<times> string list" where
  "resolve_repos_http cfg w repos_arg =
     (if repos_arg \<noteq> None \<and> repos_arg \<noteq> Some []
      then Inr (ReposArgument, strip_names (the repos_arg))
      else if truthy_opt (github_org cfg)
      then Inr (OrgRepos, org_repos w)
      else if truthy_opt (github_repos cfg)
      then Inr (ConfiguredRepos, strip_names (split_on CHR '','' (the (github_repos cfg))))
      else Inl config_error)"

text \<open>
  The same branches of the command-line adapter (\<open>mcp_server_standup/github.py\<close>):
  the \<open>repos\<close> argument, else \<open>GITHUB_REPOS\<close>, else the organization's listing, else the
  user's own repositories, else the user's public event feed. A configured source that
  yields no repository is an error.
\<close>

definition resolve_repos_cli ::
  "config \<Rightarrow> world \<Rightarrow> string \<Rightarrow> string list option
     \<Rightarrow> py_error + repo_source \<times> string list" where
  "resolve_repos_cli cfg w user repos_arg =
     (if \<not> (repos_arg \<noteq> None \<and> repos_arg \<noteq> Some [])
      then
        if truthy_opt (github_repos cfg)
        then (let rs = strip_names (split_on CHR '','' (the (github_repos cfg)))
              in if rs = [] then Inl config_error else Inr (ConfiguredRepos, rs))
        else if truthy_opt (github_org cfg)
        then (if org_repos w = [] then Inl config_error else Inr (OrgRepos, org_repos w))
        else if user \<noteq> []
        then (if user_repos w user \<noteq> [] then Inr (UserRepos, user_repos w user)
              else Inr (UserFeed, []))
        else Inl config_error
      else Inr (ReposArgument, strip_names (the repos_arg)))"

subsection \<open>One fetch\<close>

record GitHubActivity =
  target_date :: datetime
  username :: "string option"
  repos :: "string list option"
  events :: "GitHubEvent list"
  summary :: dict

text \<open>The loop \<open>for repo in repos_to_process\<close>.\<close>

fun collect_repo_events ::
  "variant \<Rightarrow> world \<Rightarrow> string option \<Rightarrow> string \<Rightarrow> string \<Rightarrow> string list \<Rightarrow> string set
     \<Rightarrow> py_error + GitHubEvent list \<times> string set" where
  "collect_repo_events v w user start_time end_time [] seen = Inr ([], seen)"
| "collect_repo_events v w user start_time end_time (r # rs) seen =
     (case fst (get_repo_events v (repo_events_page w r) r user start_time end_time seen) of
        Inl e \<Rightarrow> Inl e
      | Inr (evs, seen') \<Rightarrow>
          (case collect_repo_events v w user start_time end_time rs seen' of
             Inl e \<Rightarrow> Inl e
           | Inr (others, seen'') \<Rightarrow> Inr (evs @ others, seen'')))"

text \<open>
  \<open>_generate_summary\<close>. The repositories are collected in a Python set and listed with
  \<open>list(...)\<close>, in an order the language leaves open: the parameter \<open>list_of_set\<close>.
\<close>

fun count_event_types :: "dict \<Rightarrow> GitHubEvent list \<Rightarrow> dict" where
  "count_event_types d [] = d"
| "count_event_types d (e # es) =
     count_event_types
       (dict_set d (event_type e)
          (case dict_get d (event_type e) (PInt 0) of PInt n \<Rightarrow> PInt (n + 1) | x \<Rightarrow> x))
       es"

fun count_commits :: "GitHubEvent list \<Rightarrow> py_error + nat" where
  "count_commits [] = Inr 0"
| "count_commits (e # es) =
     (if event_type e = ''PushEvent''
      then ebind (py_len (dict_get (processed_info e) ''commits'' (PList []))) (\<lambda>n.
           ebind (count_commits es) (\<lambda>m. Inr (n + m)))
      else count_commits es)"

definition generate_summary ::
  "(string set \<Rightarrow> string list) \<Rightarrow> GitHubEvent list \<Rightarrow> py_error + dict" where
  "generate_summary list_of_set evs =
     ebind (count_commits evs) (\<lambda>commit_count.
       Inr [(''total_events'', PInt (int (length evs))),
            (''event_types'', PDict (count_event_types [] evs)),
            (''repositories'', PList (map PStr (list_of_set (set (map repo evs))))),
            (''commit_count'', PInt (int commit_count)),
            (''pr_count'',
               PInt (int (length (filter (\<lambda>e. event_type e = ''PullRequestEvent'') evs))))])"

text \<open>The end of \<open>get_activity\<close>: sort by timestamp (a stable sort), add the summary.\<close>

definition finish_activity ::
  "(string set \<Rightarrow> string list) \<Rightarrow> datetime \<Rightarrow> string option \<Rightarrow> string list option
     \<Rightarrow> GitHubEvent list \<Rightarrow> py_error + GitHubActivity" where
  "finish_activity list_of_set target user repos_arg evs =
     (let sorted_events = sort_key created_at evs in
      ebind (generate_summary list_of_set sorted_events) (\<lambda>s.
        Inr \<lparr>target_date = target, username = user, repos = repos_arg,
             events = sorted_events, summary = s\<rparr>))"

text \<open>
  \<open>get_activity\<close> of the HTTP adapter. The deduplication set is cleared first: the
  repositories are processed from the empty set.
\<close>

definition get_activity_http ::
  "config \<Rightarrow> world \<Rightarrow> (string set \<Rightarrow> string list) \<Rightarrow> datetime \<Rightarrow> string option
     \<Rightarrow> string list option \<Rightarrow> py_error + GitHubActivity" where
  "get_activity_http cfg w list_of_set target user repos_arg =
     ebind (get_utc_date_range target) (\<lambda>(start_time, end_time).
     ebind (resolve_repos_http cfg w repos_arg) (\<lambda>(source, repos_to_process).
     ebind (collect_repo_events Http w user start_time end_time repos_to_process {})
       (\<lambda>(evs, seen). finish_activity list_of_set target user repos_arg evs)))"

text \<open>
  \<open>get_activity\<close> of the command-line adapter: the user defaults to the authenticated
  one, and the last fallback reads the user's public feed instead of repositories.
\<close>

definition get_activity_cli ::
  "config \<Rightarrow> world \<Rightarrow> (string set \<Rightarrow> string list) \<Rightarrow> datetime \<Rightarrow> string option
     \<Rightarrow> string list option \<Rightarrow> py_error + GitHubActivity" where
  "get_activity_cli cfg w list_of_set target user repos_arg =
     ebind (if truthy_opt user then Inr (the user)
            else if truthy_opt (current_user w) then Inr (the (current_user w))
            else Inl (ValueError
              ''Could not determine current GitHub user. Please provide a username explicitly.''))
       (\<lambda>u.
     ebind (get_utc_date_range target) (\<lambda>(start_time, end_time).
     ebind (resolve_repos_cli cfg w u repos_arg) (\<lambda>(source, repos_to_process).
       if source = UserFeed
       then ebind (fst (get_user_events (user_events_page w u) start_time end_time {}))
              (\<lambda>(evs, seen). finish_activity list_of_set target (Some u) repos_arg evs)
       else ebind (collect_repo_events Cli w (Some u) start_time end_time repos_to_process {})
              (\<lambda>(evs, seen). finish_activity list_of_set target (Some u) repos_arg evs))))"

section \<open>Report formatting (formatting.py)\<close>

subsection \<open>Standup items\<close>

text \<open>
  \<open>_group_significant_events\<close>. The groups are a dictionary with the four keys
  \<open>commits\<close>, \<open>pull_requests\<close>, \<open>reviews\<close>, \<open>other\<close>, in that order.
\<close>

definition append_to ::
  "(string \<times> 'a list) list \<Rightarrow> string \<Rightarrow> 'a \<Rightarrow> (string \<times> 'a list) list" where
  "append_to groups k x = map (\<lambda>g. if fst g = k then (fst g, snd g @ [x]) else g) groups"

fun group_events_into ::
  "(string \<times> GitHubEvent list) list \<Rightarrow> GitHubEvent list
     \<Rightarrow> (string \<times> GitHubEvent list) list" where
  "group_events_into groups [] = groups"
| "group_events_into groups (event # rest) =
     group_events_into
       (if event_type event = ''PushEvent''
           \<and> py_truthy (dict_get (processed_info event) ''commits'' PNone)
        then append_to groups ''commits'' event
        else if event_type event = ''PullRequestEvent''
        then append_to groups ''pull_requests'' event
        else if event_type event
                  \<in> set [''PullRequestReviewEvent'', ''PullRequestReviewCommentEvent'']
        then append_to groups ''reviews'' event
        else if event_type event \<in> set [''IssueCommentEvent'', ''CreateEvent'']
        then append_to groups ''other'' event
        else groups)
       rest"

definition group_significant_events ::
  "GitHubEvent list \<Rightarrow> (string \<times> GitHubEvent list) list" where
  "group_significant_events evs =
     group_events_into
       [(''commits'', []), (''pull_requests'', []), (''reviews'', []), (''other'', [])] evs"

text \<open>\<open>_format_commit_items\<close>: the commits of each repository, then one block of lines
  for each repository.\<close>

fun commits_by_repo ::
  "(string \<times> pyval list) list \<Rightarrow> GitHubEvent list \<Rightarrow> py_error + (string \<times> pyval list) list"
  where
  "commits_by_repo by_repo [] = Inr by_repo"
| "commits_by_repo by_repo (event # rest) =
     (let by_repo = (if map_of by_repo (repo event) = None
                     then dict_set by_repo (repo event) [] else by_repo)
      in case py_iter (dict_get (processed_info event) ''commits'' (PList [])) of
           Inl e \<Rightarrow> Inl e
         | Inr cs \<Rightarrow>
             commits_by_repo
               (dict_set by_repo (repo event) (the (map_of by_repo (repo event)) @ cs)) rest)"

fun commit_lines :: "pyval list \<Rightarrow> py_error + string list" where
  "commit_lines [] = Inr []"
| "commit_lines (commit # rest) =
     ebind (py_item commit ''message'') (\<lambda>message.
     ebind (py_item commit ''sha'') (\<lambda>sha.
     ebind (py_item commit ''link'') (\<lambda>link.
     ebind (commit_lines rest) (\<lambda>ls.
       Inr ((''  - '' @ py_str message @ '' (['' @ py_str sha @ '']('' @ py_str link @ ''))'')
            # ls)))))"

definition repo_commit_items :: "string \<Rightarrow> pyval list \<Rightarrow> py_error + string list" where
  "repo_commit_items repo_name commits =
     (if length commits = 1
      then
        ebind (py_item (hd commits) ''message'') (\<lambda>message.
        ebind (py_item (hd commits) ''link'') (\<lambda>link.
          Inr [''- Committed **'' @ py_str message @ ''** to ['' @ repo_name @ '']('' @
               py_str link @ '')'']))
      else
        ebind (commit_lines (take 3 commits)) (\<lambda>ls.
          Inr ([''- Made **'' @ string_of_nat (length commits) @ '' commits** to ['' @
                repo_name @ ''](https://github.com/'' @ repo_name @ '')'']
               @ ls
               @ (if length commits > 3
                  then [''  - *(and '' @ string_of_nat (length commits - 3) @ '' more)*'']
                  else []))))"

fun concat_items :: "('a \<Rightarrow> py_error + string list) \<Rightarrow> 'a list \<Rightarrow> py_error + string list" where
  "concat_items f [] = Inr []"
| "concat_items f (x # xs) =
     (case f x of
        Inl e \<Rightarrow> Inl e
      | Inr items \<Rightarrow>
          (case concat_items f xs of Inl e \<Rightarrow> Inl e | Inr others \<Rightarrow> Inr (items @ others)))"

definition format_commit_items :: "GitHubEvent list \<Rightarrow> py_error + string list" where
  "format_commit_items evs =
     ebind (commits_by_repo [] evs) (\<lambda>by_repo.
       concat_items (\<lambda>rc. repo_commit_items (fst rc) (snd rc)) by_repo)"

text \<open>\<open>links[0] if links else fallback\<close>\<close>

definition first_link :: "pyval \<Rightarrow> string \<Rightarrow> py_error + pyval" where
  "first_link links fallback = (if py_truthy links then py_first links else Inr (PStr fallback))"

text \<open>\<open>_format_pr_items\<close>: the lines of one event.\<close>

definition pr_item :: "GitHubEvent \<Rightarrow> py_error + string list" where
  "pr_item event =
     (let info = processed_info event;
          action = dict_get info ''action'' (PStr []);
          pr_number = dict_get info ''pr_number'' (PStr []);
          title = dict_get info ''title'' (PStr []);
          links = dict_get info ''links'' (PList [])
      in if action = PStr ''opened''
         then ebind (first_link links
                       (''https://github.com/'' @ repo event @ ''/pull/'' @ py_str pr_number))
                (\<lambda>link. Inr [''- Opened **[PR #'' @ py_str pr_number @ '']('' @ py_str link
                               @ '')**: '' @ py_str title])
         else if action \<in> set [PStr ''closed'', PStr ''merged'']
         then ebind (first_link links
                       (''https://github.com/'' @ repo event @ ''/pull/'' @ py_str pr_number))
                (\<lambda>link. Inr [''- '' @ py_title (py_str action) @ '' **[PR #''
                               @ py_str pr_number @ '']('' @ py_str link @ '')**: ''
                               @ py_str title])
         else Inr [])"

definition format_pr_items :: "GitHubEvent list \<Rightarrow> py_error + string list" where
  "format_pr_items evs = concat_items pr_item evs"

text \<open>\<open>_format_review_items\<close>: the review events of each pull request, then one line for
  the last of each.\<close>

fun reviews_by_pr ::
  "(string \<times> GitHubEvent list) list \<Rightarrow> GitHubEvent list \<Rightarrow> (string \<times> GitHubEvent list) list"
  where
  "reviews_by_pr by_pr [] = by_pr"
| "reviews_by_pr by_pr (event # rest) =
     (if event_type event = ''PullRequestReviewEvent''
      then
        let pr_key = repo event @ ''#''
                     @ py_str (dict_get (processed_info event) ''pr_number'' (PStr []));
            by_pr = (if map_of by_pr pr_key = None then dict_set by_pr pr_key [] else by_pr)
        in reviews_by_pr (dict_set by_pr pr_key (the (map_of by_pr pr_key) @ [event])) rest
      else reviews_by_pr by_pr rest)"

definition review_item :: "GitHubEvent list \<Rightarrow> py_error + string list" where
  "review_item review_events =
     (let latest_review = last review_events;
          info = processed_info latest_review;
          pr_number = dict_get info ''pr_number'' (PStr []);
          state = dict_get info ''review_state'' (PStr []);
          links = dict_get info ''links'' (PList [])
      in ebind (first_link links
                  (''https://github.com/'' @ repo latest_review @ ''/pull/'' @ py_str pr_number))
           (\<lambda>link. Inr [''- Reviewed **[PR #'' @ py_str pr_number @ '']('' @ py_str link
                          @ '')** ('' @ py_str state @ '')'']))"

definition format_review_items :: "GitHubEvent list \<Rightarrow> py_error + string list" where
  "format_review_items evs = concat_items (\<lambda>g. review_item (snd g)) (reviews_by_pr [] evs)"

text \<open>\<open>_format_other_items\<close>: the lines of one event.\<close>

definition other_item :: "GitHubEvent \<Rightarrow> py_error + string list" where
  "other_item event =
     (let info = processed_info event in
      if event_type event = ''IssueCommentEvent''
      then
        let number = dict_get info ''issue_number'' (PStr []);
            is_pr = dict_get info ''is_pull_request'' (PBool False);
            links = dict_get info ''links'' (PList [])
        in ebind (first_link links [])
             (\<lambda>link. Inr [''- Commented on **['' @ (if py_truthy is_pr then ''PR'' else ''issue'')
                            @ '' #'' @ py_str number @ '']('' @ py_str link @ '')**''])
      else if event_type event = ''CreateEvent''
      then
        let ref_type = dict_get info ''ref_type'' (PStr []);
            ref = dict_get info ''ref'' (PStr [])
        in if ref_type = PStr ''branch''
           then Inr [''- Created branch **'' @ py_str ref @ ''** in '' @ repo event]
           else Inr []
      else Inr [])"

definition format_other_items :: "GitHubEvent list \<Rightarrow> py_error + string list" where
  "format_other_items evs = concat_items other_item evs"

text \<open>\<open>_generate_standup_items\<close>: the items of every group, in the order of the groups.\<close>

definition group_items :: "string \<times> GitHubEvent list \<Rightarrow> py_error + string list" where
  "group_items g =
     (if fst g = ''commits'' then format_commit_items (snd g)
      else if fst g = ''pull_requests'' then format_pr_items (snd g)
      else if fst g = ''reviews'' then format_review_items (snd g)
      else if fst g = ''other'' then format_other_items (snd g)
      else Inr [])"

definition generate_standup_items :: "GitHubActivity \<Rightarrow> py_error + string list" where
  "generate_standup_items github_activity =
     concat_items group_items (group_significant_events (events github_activity))"

subsection \<open>The three renderings\<close>

text \<open>
  \<open>sorted(v)\<close> for the repository names of a summary: a list of strings is ordered by
  code points, a list of integers by value. Python orders a few more lists (nested lists,
  booleans among integers); the model reports every other list of two or more values as
  \<open>TypeError\<close>.
\<close>

definition is_PStr :: "pyval \<Rightarrow> bool" where
  "is_PStr v = (case v of PStr s \<Rightarrow> True | _ \<Rightarrow> False)"

definition is_PInt :: "pyval \<Rightarrow> bool" where
  "is_PInt v = (case v of PInt i \<Rightarrow> True | _ \<Rightarrow> False)"

definition py_sorted :: "pyval \<Rightarrow> py_error + pyval list" where
  "py_sorted v =
     ebind (py_iter v) (\<lambda>xs.
       if list_all is_PStr xs then Inr (map PStr (sort (map py_str xs)))
       else if list_all is_PInt xs
       then Inr (map PInt (sort (map (\<lambda>x. case x of PInt i \<Rightarrow> i | _ \<Rightarrow> 0) xs)))
       else if length xs \<le> 1 then Inr xs
       else Inl TypeError)"

text \<open>\<open>d[k]\<close> on a dictionary.\<close>

definition dict_item :: "dict \<Rightarrow> string \<Rightarrow> py_error + pyval" where
  "dict_item d k = (case map_of d k of None \<Rightarrow> Inl KeyError | Some v \<Rightarrow> Inr v)"

definition format_markdown_report :: "GitHubActivity \<Rightarrow> py_error + string" where
  "format_markdown_report github_activity =
     (let lines = [''# Standup Summary - '' @ strftime_long (target_date github_activity), '''']
      in ebind (generate_standup_items github_activity) (\<lambda>standup_items.
         let lines = lines @ (if standup_items \<noteq> [] then standup_items
                              else [''No significant activity to report.'']);
             lines = lines @ ['''', ''---'', '''']
         in if events github_activity \<noteq> []
            then
              ebind (dict_item (summary github_activity) ''total_events'') (\<lambda>total.
              ebind (dict_item (summary github_activity) ''repositories'') (\<lambda>repositories.
              ebind (py_len repositories) (\<lambda>n.
              ebind (py_sorted repositories) (\<lambda>sorted_repos.
                Inr (join ''\<newline>''
                  (lines
                   @ [''## GitHub Activity Details'', '''',
                      ''**'' @ py_str total @ '' events** across **'' @ string_of_nat n
                        @ '' repositories**'',
                      '''']
                   @ map (\<lambda>r. ''- ['' @ py_str r @ ''](https://github.com/'' @ py_str r
                                 @ '')'') sorted_repos
                   @ ['''']))))))
            else Inr (join ''\<newline>'' lines)))"

text \<open>
  \<open>re.sub(r"\[([^\]]+)\]\([^)]+\)", r"\1", s)\<close>. At a position the pattern matches in
  one way at most: an opening bracket, the label up to the next closing bracket, an
  opening parenthesis, the target up to the next closing parenthesis; label and target
  are not empty. \<open>match_link\<close> returns the label and the length of the match less one.
\<close>

definition match_link :: "string \<Rightarrow> (string \<times> nat) option" where
  "match_link s =
     (case s of
        [] \<Rightarrow> None
      | c # r \<Rightarrow>
          if c \<noteq> CHR ''['' then None
          else
            let label = takeWhile (\<lambda>x. x \<noteq> CHR '']'') r;
                after_label = drop (length label) r
            in if label = [] \<or> take 2 after_label \<noteq> '']('' then None
               else
                 let target = takeWhile (\<lambda>x. x \<noteq> CHR '')'') (drop 2 after_label);
                     after_target = drop (length target) (drop 2 after_label)
                 in if target = [] \<or> take 1 after_target \<noteq> '')'' then None
                    else Some (label, length label + length target + 3))"

function re_sub_links :: "string \<Rightarrow> string" where
  "re_sub_links [] = []"
| "re_sub_links (c # cs) =
     (case match_link (c # cs) of
        Some (label, n) \<Rightarrow> label @ re_sub_links (drop (Suc n) (c # cs))
      | None \<Rightarrow> c # re_sub_links cs)"
  by pat_completeness auto
termination
  by (relation "measure length") auto

text \<open>The cleaning of one standup item in \<open>_format_text_report\<close>.\<close>

definition clean_item :: "string \<Rightarrow> string" where
  "clean_item item = re_sub_links (py_replace ''*'' [] (py_replace ''**'' [] item))"

definition format_text_report :: "GitHubActivity \<Rightarrow> py_error + string" where
  "format_text_report github_activity =
     (let lines = [''Standup Summary - '' @ strftime_long (target_date github_activity),
                   replicate 50 CHR ''='', '''']
      in ebind (generate_standup_items github_activity) (\<lambda>standup_items.
           Inr (join ''\<newline>''
             (lines @ (if standup_items \<noteq> [] then map clean_item standup_items
                       else [''No significant activity to report.''])))))"

text \<open>
  \<open>json.dumps(data, indent=2)\<close> on the values of the model: strings are written in
  double quotes with \<open>"\<close>, \<open>\\<close> and every character outside the printable ASCII range
  escaped; a non-empty list or dictionary has one member per line, indented two spaces per
  level.
\<close>

definition json_char :: "char \<Rightarrow> string" where
  "json_char c = (let n = (of_char c :: nat) in
     if n = 34 then [CHR 0x5C, CHR 0x22]
     else if n = 92 then [CHR 0x5C, CHR 0x5C]
     else if n = 10 then [CHR 0x5C, CHR ''n'']
     else if n = 13 then [CHR 0x5C, CHR ''r'']
     else if n = 9 then [CHR 0x5C, CHR ''t'']
     else if n = 8 then [CHR 0x5C, CHR ''b'']
     else if n = 12 then [CHR 0x5C, CHR ''f'']
     else if n < 32 \<or> n > 126
       then [CHR 0x5C, CHR ''u'', CHR ''0'', CHR ''0'', hex_digit (n div 16), hex_digit (n mod 16)]
     else [c])"

definition json_str :: "string \<Rightarrow> string" where
  "json_str s = [CHR 0x22] @ concat (map json_char s) @ [CHR 0x22]"

fun json_dumps_at :: "nat \<Rightarrow> pyval \<Rightarrow> string" where
  "json_dumps_at lvl PNone = ''null''"
| "json_dumps_at lvl (PBool b) = (if b then ''true'' else ''false'')"
| "json_dumps_at lvl (PInt i) = string_of_int i"
| "json_dumps_at lvl (PStr s) = json_str s"
| "json_dumps_at lvl (PList xs) =
     (if xs = [] then ''[]''
      else ''['' @ ''\<newline>''
           @ join ('','' @ ''\<newline>'')
               (map (\<lambda>x. replicate (2 * (lvl + 1)) CHR '' '' @ json_dumps_at (lvl + 1) x) xs)
           @ ''\<newline>'' @ replicate (2 * lvl) CHR '' '' @ '']'')"
| "json_dumps_at lvl (PDict d) =
     (if d = [] then ''{}''
      else ''{'' @ ''\<newline>''
           @ join ('','' @ ''\<newline>'')
               (map (\<lambda>kv. replicate (2 * (lvl + 1)) CHR '' '' @ json_str (fst kv) @ '': ''
                            @ json_dumps_at (lvl + 1) (snd kv)) d)
           @ ''\<newline>'' @ replicate (2 * lvl) CHR '' '' @ ''}'')"

definition json_dumps :: "pyval \<Rightarrow> string" where
  "json_dumps v = json_dumps_at 0 v"

text \<open>The document that \<open>_format_json_report\<close> builds (its local \<open>data\<close>).\<close>

definition event_json :: "GitHubEvent \<Rightarrow> pyval" where
  "event_json event =
     PDict [(''type'', PStr (event_type event)),
            (''created_at'', PStr (created_at event)),
            (''repo'', PStr (repo event)),
            (''actor'', PStr (actor event)),
            (''processed_info'', PDict (processed_info event))]"

definition json_report_data :: "GitHubActivity \<Rightarrow> py_error + pyval" where
  "json_report_data github_activity =
     ebind (generate_standup_items github_activity) (\<lambda>standup_items.
       Inr (PDict
         [(''date'', PStr (isoformat (target_date github_activity))),
          (''github'', PDict
             [(''summary'', PDict (summary github_activity)),
              (''events'', PList (map event_json (events github_activity)))]),
          (''standup_items'', PList (map PStr standup_items))]))"

definition format_json_report :: "GitHubActivity \<Rightarrow> py_error + string" where
  "format_json_report github_activity =
     ebind (json_report_data github_activity) (\<lambda>data. Inr (json_dumps data))"

definition format_standup_report :: "GitHubActivity \<Rightarrow> string \<Rightarrow> py_error + string" where
  "format_standup_report github_activity format_type =
     (if format_type = ''json'' then format_json_report github_activity
      else if format_type = ''text'' then format_text_report github_activity
      else format_markdown_report github_activity)"

section \<open>Tool dispatch (server.py of both services)\<close>







section \<open>Predicates of the statements\<close>

text \<open>A \<open>processed_info\<close> that binds \<open>links\<close>, \<open>details\<close> and \<open>commits\<close> to lists.\<close>

definition has_three_keys :: "dict \<Rightarrow> bool" where
  "has_three_keys p = (\<exists>links details commits.
     map_of p ''links'' = Some (PList links)
     \<and> map_of p ''details'' = Some (PList details)
     \<and> map_of p ''commits'' = Some (PList commits))"

text \<open>The \<open>processed_info\<close> that \<open>_process_event\<close> starts from.\<close>

definition default_info :: dict where
  "default_info = [(''links'', PList []), (''details'', PList []), (''commits'', PList [])]"

text \<open>The page the source returns for \<open>page\<close> is not empty and its last record is older
  than the start of the window.\<close>

definition last_record_before :: "(nat \<Rightarrow> response) \<Rightarrow> string \<Rightarrow> nat \<Rightarrow> bool" where
  "last_record_before fetch start_time page =
     (case fetch page of
        Page data \<Rightarrow> data \<noteq> [] \<and> raw_created_at (last data) < start_time
      | _ \<Rightarrow> False)"

text \<open>The repository names that \<open>GITHUB_REPOS\<close> lists.\<close>

definition configured_names :: "config \<Rightarrow> string list" where
  "configured_names cfg = strip_names (split_on CHR '','' (the (github_repos cfg)))"







text \<open>The commits that a \<open>processed_info\<close> lists, with their message, full hash and key.\<close>

definition emitted_commits :: "dict \<Rightarrow> pyval list" where
  "emitted_commits p = (case map_of p ''commits'' of Some (PList cs) \<Rightarrow> cs | _ \<Rightarrow> [])"







text \<open>
  The events that give rise to a standup item: a push with commits, a pull request that
  was opened, closed or merged, a pull-request review, an issue comment, the creation of a
  branch.
\<close>

definition reportable :: "GitHubEvent \<Rightarrow> bool" where
  "reportable e =
     (event_type e = ''PushEvent'' \<and> py_truthy (dict_get (processed_info e) ''commits'' PNone)
      \<or> event_type e = ''PullRequestEvent''
        \<and> dict_get (processed_info e) ''action'' (PStr [])
            \<in> set [PStr ''opened'', PStr ''closed'', PStr ''merged'']
      \<or> event_type e = ''PullRequestReviewEvent''
      \<or> event_type e = ''IssueCommentEvent''
      \<or> event_type e = ''CreateEvent''
        \<and> dict_get (processed_info e) ''ref_type'' (PStr []) = PStr ''branch'')"

section \<open>Example data\<close>

text \<open>Tuesday 2024-07-23 (ordinal 739090), at 15:30:12 and at midnight.\<close>

definition tuesday_afternoon :: datetime where
  "tuesday_afternoon =
     \<lparr>ordinal = 739090, hour = 15, minute = 30, second = 12, microsecond = 99\<rparr>"

definition july_23 :: datetime where
  "july_23 = \<lparr>ordinal = 739090, hour = 0, minute = 0, second = 0, microsecond = 0\<rparr>"

text \<open>A day without activity.\<close>

definition empty_day :: GitHubActivity where
  "empty_day =
     \<lparr>target_date = july_23, username = Some ''testuser'', repos = None, events = [],
      summary = [(''total_events'', PInt 0), (''repositories'', PList [])]\<rparr>"


text \<open>Both \<open>GITHUB_ORG\<close> and \<open>GITHUB_REPOS\<close> set, and a source that knows one repository of
  the organization and one of each user.\<close>

definition both_configured :: config where
  "both_configured =
     \<lparr>github_org = Some ''acme'', github_repos = Some ''alice/tool, alice/notes''\<rparr>"

definition no_events :: "string \<Rightarrow> nat \<Rightarrow> response" where
  "no_events r page = Page []"

definition acme_world :: world where
  "acme_world =
     \<lparr>org_repos = [''acme/site''], user_repos = (\<lambda>u. [u @ ''/dotfiles'']),
      current_user = Some ''alice'', repo_events_page = no_events,
      user_events_page = no_events\<rparr>"

text \<open>A repository whose first page is full of records of the day and whose later pages
  hold records of the day before.\<close>

definition watch_record :: "string \<Rightarrow> RawEvent" where
  "watch_record t =
     \<lparr>raw_type = ''WatchEvent'', raw_created_at = t, raw_actor_login = ''alice'',
      raw_repo_name = ''acme/site'', raw_payload = []\<rparr>"

definition busy_repo :: "nat \<Rightarrow> response" where
  "busy_repo page =
     (if page = 1 then Page (replicate 100 (watch_record ''2024-07-23T10:00:00Z''))
      else Page (replicate 100 (watch_record ''2024-07-22T10:00:00Z'')))"

text \<open>The deletion of a branch, and an event of a type the classifier does not know.\<close>

definition delete_event :: GitHubEvent where
  "delete_event =
     \<lparr>event_type = ''DeleteEvent'', created_at = ''2024-07-23T09:00:00Z'', repo = ''acme/site'',
      actor = ''alice'', payload = [(''ref_type'', PStr ''branch''), (''ref'', PStr ''old'')],
      processed_info = []\<rparr>"

definition watch_event :: GitHubEvent where
  "watch_event =
     \<lparr>event_type = ''WatchEvent'', created_at = ''2024-07-23T09:30:00Z'', repo = ''acme/site'',
      actor = ''alice'', payload = [(''action'', PStr ''started'')], processed_info = []\<rparr>"








text \<open>A day whose only event is the deletion of a branch, as the classifier leaves it.\<close>

definition quiet_day :: GitHubActivity where
  "quiet_day =
     \<lparr>target_date = july_23, username = Some ''alice'', repos = None,
      events = [delete_event\<lparr>processed_info :=
                  [(''links'', PList []),
                   (''details'', PList [PStr (''Deleted branch '' @ [CHR 0x27] @ ''old''
                                               @ [CHR 0x27])]),
                   (''commits'', PList []),
                   (''ref_type'', PStr ''branch''), (''ref'', PStr ''old''),
                   (''action'', PStr ''deleted'')]\<rparr>],
      summary = [(''total_events'', PInt 1),
                 (''event_types'', PDict [(''DeleteEvent'', PInt 1)]),
                 (''repositories'', PList [PStr ''acme/site'']),
                 (''commit_count'', PInt 0), (''pr_count'', PInt 0)]\<rparr>"

section \<open>Basic facts\<close>

lemma ebind_Inr: "ebind m f = Inr y \<longleftrightarrow> (\<exists>x. m = Inr x \<and> f x = Inr y)"
  by (cases m) (simp_all add: ebind_def)

lemma markdown_empty_day:
  "format_markdown_report empty_day
     = Inr ''# Standup Summary - July 23, 2024\<newline>\<newline>No significant activity to report.\<newline>\<newline>---\<newline>''"
  by code_simp

section \<open>Properties of the date expression resolver\<close>

text \<open>
  C7. On an empty date expression \<open>parse_date\<close> returns the last workday at midnight:
  three days before the current day when the current day is a Monday, one day before it
  otherwise. On a Monday the result is a Friday, on a Tuesday it is a Monday. The current
  instant lies at least three days after the first day a \<open>datetime\<close> can hold, as every
  instant read from a clock does.
\<close>

theorem parse_date_empty_last_workday:
  assumes "4 \<le> ordinal now" and "ordinal now \<le> max_ordinal"
  shows "\<exists>d. parse_date now dateutil_parse [] = Inr d
           \<and> hour d = 0 \<and> minute d = 0 \<and> second d = 0 \<and> microsecond d = 0
           \<and> ordinal d = (if weekday now = 0 then ordinal now - 3 else ordinal now - 1)
           \<and> (weekday now = 0 \<longrightarrow> weekday d = 4)
           \<and> (weekday now = 1 \<longrightarrow> weekday d = 0)"
proof (cases "weekday now = 0")
  case True
  then have "(ordinal now - 3 + 6) mod 7 = 4"
    unfolding weekday_def by presburger
  with True assms show ?thesis
    by (simp add: parse_date_def get_last_workday_def sub_days_def midnight_def weekday_def)
next
  case False
  have "weekday now = 1 \<longrightarrow> (ordinal now - 1 + 6) mod 7 = 0"
    unfolding weekday_def by presburger
  with False assms show ?thesis
    by (simp add: parse_date_def get_last_workday_def sub_days_def midnight_def weekday_def)
qed

text \<open>On Tuesday 2024-07-23 the empty expression resolves to Monday 2024-07-22, 00:00.\<close>

theorem parse_date_empty_last_workday_witness:
  "parse_date tuesday_afternoon (\<lambda>s. Inl (ValueError [])) []
     = Inr \<lparr>ordinal = 739089, hour = 0, minute = 0, second = 0, microsecond = 0\<rparr>
   \<and> weekday tuesday_afternoon = 1
   \<and> weekday \<lparr>ordinal = 739089, hour = 0, minute = 0, second = 0, microsecond = 0\<rparr> = 0"
  using parse_date_empty_last_workday [of tuesday_afternoon "\<lambda>s. Inl (ValueError [])"]
  by (auto simp add: tuesday_afternoon_def max_ordinal_def weekday_def)

section \<open>Properties of the tool dispatch\<close>








section \<open>Properties of the fetch\<close>

text \<open>
  C4 (as amended). The command-line adapter takes the repositories from the \<open>repos\<close>
  argument, else from \<open>GITHUB_REPOS\<close>, else from the organization's listing, else from the
  user's own repositories, else it reads the user's public feed; a configured source that
  yields no repository is a configuration error. The HTTP adapter takes them from the
  \<open>repos\<close> argument, else from the organization's listing, else from \<open>GITHUB_REPOS\<close>, and
  has no fallback to the user: with neither configured it fails.
\<close>

theorem repo_source_precedence:
  "(repos_arg \<noteq> None \<and> repos_arg \<noteq> Some [] \<longrightarrow>
      resolve_repos_cli cfg w user repos_arg = Inr (ReposArgument, strip_names (the repos_arg))
      \<and> resolve_repos_http cfg w repos_arg = Inr (ReposArgument, strip_names (the repos_arg)))
   \<and> (repos_arg = None \<or> repos_arg = Some [] \<longrightarrow>
        (truthy_opt (github_repos cfg) \<longrightarrow>
           resolve_repos_cli cfg w user repos_arg
             = (if configured_names cfg = [] then Inl config_error
                else Inr (ConfiguredRepos, configured_names cfg)))
        \<and> (\<not> truthy_opt (github_repos cfg) \<and> truthy_opt (github_org cfg) \<longrightarrow>
             resolve_repos_cli cfg w user repos_arg
               = (if org_repos w = [] then Inl config_error else Inr (OrgRepos, org_repos w)))
        \<and> (\<not> truthy_opt (github_repos cfg) \<and> \<not> truthy_opt (github_org cfg) \<and> user \<noteq> [] \<longrightarrow>
             resolve_repos_cli cfg w user repos_arg
               = (if user_repos w user \<noteq> [] then Inr (UserRepos, user_repos w user)
                  else Inr (UserFeed, [])))
        \<and> (truthy_opt (github_org cfg) \<longrightarrow>
             resolve_repos_http cfg w repos_arg = Inr (OrgRepos, org_repos w))
        \<and> (\<not> truthy_opt (github_org cfg) \<and> truthy_opt (github_repos cfg) \<longrightarrow>
             resolve_repos_http cfg w repos_arg = Inr (ConfiguredRepos, configured_names cfg))
        \<and> (\<not> truthy_opt (github_org cfg) \<and> \<not> truthy_opt (github_repos cfg) \<longrightarrow>
             resolve_repos_http cfg w repos_arg = Inl config_error))"
  by (auto simp add: resolve_repos_cli_def resolve_repos_http_def configured_names_def Let_def)

text \<open>
  With both variables set and no \<open>repos\<close> argument the HTTP adapter queries the
  organization's repositories, not the configured list; the command-line adapter queries
  the configured list.
\<close>

theorem repo_source_precedence_counterexample:
  "resolve_repos_http both_configured acme_world None = Inr (OrgRepos, [''acme/site''])
   \<and> resolve_repos_cli both_configured acme_world ''alice'' None
       = Inr (ConfiguredRepos, [''alice/tool'', ''alice/notes''])"
  by code_simp

theorem repo_source_precedence_witness:
  "resolve_repos_http both_configured acme_world None = Inr (OrgRepos, [''acme/site''])
   \<and> resolve_repos_cli \<lparr>github_org = None, github_repos = None\<rparr> acme_world ''alice'' None
       = Inr (UserRepos, [''alice/dotfiles''])
   \<and> resolve_repos_cli both_configured acme_world ''alice'' (Some [''  bob/x '', '' ''])
       = Inr (ReposArgument, [''bob/x''])"
  using repo_source_precedence [of None both_configured acme_world "''alice''"]
        repo_source_precedence [of None "\<lparr>github_org = None, github_repos = None\<rparr>" acme_world "''alice''"]
        repo_source_precedence [of "Some [''  bob/x '', '' '']" both_configured acme_world "''alice''"]
  by (simp add: both_configured_def acme_world_def truthy_opt_def strip_names_def py_strip_def is_space_def)

section \<open>Properties of the deduplication\<close>




lemma emitted_commits_default [simp]:
  "emitted_commits [(''links'', PList []), (''details'', PList []), (''commits'', PList [])] = []"
  by (simp add: emitted_commits_def)









lemma loop_pages:
  "\<exists>n. snd (repo_events_loop v fetch rp user st en page evs seen) = [page ..< page + n]
       \<and> n \<le> 51 - page
       \<and> (\<forall>q. page \<le> q \<and> q < page + n \<and> last_record_before fetch st q \<longrightarrow> Suc q = page + n)"
proof (induction v fetch rp user st en page evs seen rule: repo_events_loop.induct)
  case (1 v fetch rp user st en page evs seen)
  note simps = repo_events_loop.simps [of v fetch rp user st en page evs seen]
  have one: ?case
    if "page \<le> 50" "snd (repo_events_loop v fetch rp user st en page evs seen) = [page]"
  proof (intro exI [of _ 1] conjI)
    show "snd (repo_events_loop v fetch rp user st en page evs seen) = [page ..< page + 1]"
      using that by simp
    show "1 \<le> 51 - page" using that by simp
    show "\<forall>q. page \<le> q \<and> q < page + 1 \<and> last_record_before fetch st q \<longrightarrow> Suc q = page + 1"
      by auto
  qed
  show ?case
  proof (cases "page \<le> 50")
    case False
    then have "snd (repo_events_loop v fetch rp user st en page evs seen) = [page ..< page + 0]"
      by (simp add: simps)
    then show ?thesis
      by (intro exI [of _ 0]) simp
  next
    case le: True
    show ?thesis
    proof (cases "fetch page")
      case Failed
      with le show ?thesis by (intro one) (simp_all add: simps)
    next
      case Malformed
      with le show ?thesis by (intro one) (simp_all add: simps)
    next
      case (Page data)
      show ?thesis
      proof (cases "data = []")
        case True
        with le Page show ?thesis by (intro one) (simp_all add: simps)
      next
        case ne: False
        show ?thesis
        proof (cases "filter_events rp user st en data seen")
          case (Inl e)
          with le Page ne show ?thesis by (intro one) (simp_all add: simps)
        next
          case (Inr r)
          obtain filtered returned seen' where r: "r = (filtered, returned, seen')"
            by (cases r) auto
          show ?thesis
          proof (cases "returned \<or> length data < 100 \<or> raw_created_at (last data) < st")
            case True
            with le Page ne Inr r show ?thesis by (intro one) (auto simp add: simps)
          next
            case cont: False
            have r1: "(filtered, returned, seen') = r"
              and r2: "(returned, seen') = (returned, seen')"
              using r by simp_all
            from "1.IH" [OF le Page ne Inr r1 r2 cont]
            obtain n where
              n: "snd (repo_events_loop v fetch rp user st en (page + 1) (evs @ filtered) seen')
                    = [page + 1 ..< page + 1 + n]"
                 "n \<le> 51 - (page + 1)"
                 "\<forall>q. page + 1 \<le> q \<and> q < page + 1 + n \<and> last_record_before fetch st q
                        \<longrightarrow> Suc q = page + 1 + n"
              by blast
            have notlast: "\<not> last_record_before fetch st page"
              using Page cont by (simp add: last_record_before_def)
            have "snd (repo_events_loop v fetch rp user st en page evs seen)
                    = page # snd (repo_events_loop v fetch rp user st en (page + 1)
                                    (evs @ filtered) seen')"
              using le Page ne Inr r cont by (simp add: simps split: prod.splits)
            also have "\<dots> = page # [page + 1 ..< page + 1 + n]"
              by (simp only: n(1))
            also have "\<dots> = [page ..< page + (n + 1)]"
              by (simp add: upt_rec [of page])
            finally have a: "snd (repo_events_loop v fetch rp user st en page evs seen)
                               = [page ..< page + (n + 1)]" .
            have b: "n + 1 \<le> 51 - page"
              using n(2) le by simp
            have c: "\<forall>q. page \<le> q \<and> q < page + (n + 1) \<and> last_record_before fetch st q
                           \<longrightarrow> Suc q = page + (n + 1)"
            proof (intro allI impI)
              fix q
              assume q: "page \<le> q \<and> q < page + (n + 1) \<and> last_record_before fetch st q"
              with notlast have "q \<noteq> page" by auto
              with q have "page + 1 \<le> q \<and> q < page + 1 + n \<and> last_record_before fetch st q"
                by simp
              with n(3) have "Suc q = page + 1 + n" by blast
              then show "Suc q = page + (n + 1)" by simp
            qed
            from a b c show ?thesis by blast
          qed
        qed
      qed
    qed
  qed
qed

text \<open>
  C6. The pagination of one repository's events, in either adapter, requests the pages
  1, 2, ... in order and at most 50 of them, whatever the source returns; and once a page
  whose last record is older than the start of the window has been fetched, no further
  page is requested: such a page is the last one requested.
\<close>

theorem pagination_stops:
  assumes "snd (get_repo_events v fetch repo_name user start_time end_time seen) = pages"
  shows "length pages \<le> 50
         \<and> pages = [1 ..< Suc (length pages)]
         \<and> (\<forall>i < length pages.
               last_record_before fetch start_time (pages ! i) \<longrightarrow> Suc i = length pages)"
proof -
  from loop_pages [of v fetch repo_name user start_time end_time 1 "[]" seen]
  obtain n where
    n0: "snd (repo_events_loop v fetch repo_name user start_time end_time 1 [] seen)
           = [1 ..< 1 + n]"
    and n1: "n \<le> 51 - 1"
    and n2: "\<forall>q. 1 \<le> q \<and> q < 1 + n \<and> last_record_before fetch start_time q
                  \<longrightarrow> Suc q = 1 + n"
    by blast
  from assms n0 have pages: "pages = [1 ..< 1 + n]"
    unfolding get_repo_events_def by simp
  from pages have len: "length pages = n" by simp
  have "Suc i = length pages"
    if "i < length pages" "last_record_before fetch start_time (pages ! i)" for i
  proof -
    from that(1) len have "pages ! i = 1 + i"
      unfolding pages using nth_upt [of 1 i "1 + n"] by (simp del: upt_Suc)
    with that len have "1 \<le> 1 + i \<and> 1 + i < 1 + n \<and> last_record_before fetch start_time (1 + i)"
      by simp
    with n2 have "Suc (1 + i) = 1 + n"
      by blast
    with len show ?thesis by simp
  qed
  moreover have "pages = [1 ..< Suc (length pages)]"
    unfolding len using pages by (simp del: upt_Suc)
  moreover have "length pages \<le> 50"
    using len n1 by simp
  ultimately show ?thesis by blast
qed

text \<open>The first page is full and of the day, so the second is requested; its last record
  is of the day before, so the third is not.\<close>

theorem pagination_stops_witness:
  "snd (get_repo_events Http busy_repo ''acme/site'' None ''2024-07-23T00:00:00Z''
          ''2024-07-24T07:59:59Z'' {}) = [1, 2]
   \<and> last_record_before busy_repo ''2024-07-23T00:00:00Z'' ([1, 2] ! 1)
   \<and> \<not> last_record_before busy_repo ''2024-07-23T00:00:00Z'' ([1, 2] ! 0)"
proof -
  have pages: "snd (get_repo_events Http busy_repo ''acme/site'' None ''2024-07-23T00:00:00Z''
                      ''2024-07-24T07:59:59Z'' {}) = [1, 2]"
    by code_simp
  have older: "last_record_before busy_repo ''2024-07-23T00:00:00Z'' ([1, 2] ! 1)"
    by (simp add: last_record_before_def busy_repo_def watch_record_def)
  from pagination_stops [OF pages]
  have "\<forall>i < length [1, 2 :: nat].
          last_record_before busy_repo ''2024-07-23T00:00:00Z'' ([1, 2] ! i)
          \<longrightarrow> Suc i = length [1, 2 :: nat]"
    by blast
  then have "\<not> last_record_before busy_repo ''2024-07-23T00:00:00Z'' ([1, 2] ! 0)"
    by fastforce
  with pages older show ?thesis by blast
qed

section \<open>Properties of the classifier\<close>

lemma push_keys:
  assumes "process_push_event event seen = Inr (p, seen')"
  shows "has_three_keys (dict_update default_info p)"
  using assms
  by (auto simp add: process_push_event_def ebind_Inr Let_def has_three_keys_def
        default_info_def dict_update_def)

lemma pr_keys:
  assumes "process_pr_event event = Inr p"
  shows "has_three_keys (dict_update default_info p)"
  using assms
  by (auto simp add: process_pr_event_def ebind_Inr Let_def has_three_keys_def
        default_info_def dict_update_def)

lemma comment_keys:
  assumes "process_comment_event event = Inr p"
  shows "has_three_keys (dict_update default_info p)"
  using assms
  by (auto simp add: process_comment_event_def ebind_Inr Let_def has_three_keys_def
        default_info_def dict_update_def)

lemma review_keys:
  assumes "process_review_event event = Inr p"
  shows "has_three_keys (dict_update default_info p)"
  using assms
  by (auto simp add: process_review_event_def ebind_Inr Let_def has_three_keys_def
        default_info_def dict_update_def)

lemma ref_keys:
  assumes "process_ref_event event = Inr p"
  shows "has_three_keys (dict_update default_info p)"
  using assms
  by (auto simp add: process_ref_event_def Let_def has_three_keys_def
        default_info_def dict_update_def)

lemma process_event_keys:
  assumes "process_event event seen = Inr (p, seen')"
  shows "has_three_keys p"
proof -
  have d: "[(''links'', PList []), (''details'', PList []), (''commits'', PList [])] = default_info"
    by (simp add: default_info_def)
  have "has_three_keys default_info"
    by (simp add: has_three_keys_def default_info_def)
  with assms show ?thesis
    unfolding process_event_def Let_def d
    by (auto simp add: ebind_Inr push_keys pr_keys comment_keys review_keys ref_keys
          split: if_splits)
qed

lemma ref_event_returns:
  assumes "event_type event \<in> set [''CreateEvent'', ''DeleteEvent'']"
  shows "\<exists>p. process_event event seen = Inr (p, seen)"
proof -
  from assms have "event_type event = ''CreateEvent'' \<or> event_type event = ''DeleteEvent''"
    by simp
  then show ?thesis
    by (elim disjE) (simp_all add: process_event_def process_ref_event_def ebind_def Let_def)
qed

lemma unknown_event_default:
  assumes "event_type event \<notin> set [''PushEvent'', ''PullRequestEvent'', ''IssueCommentEvent'',
             ''PullRequestReviewEvent'', ''CreateEvent'', ''DeleteEvent'']"
  shows "process_event event seen = Inr (default_info, seen)"
  using assms by (simp add: process_event_def default_info_def)

text \<open>
  C8. Whatever the type of the event, the \<open>processed_info\<close> that the classifier returns
  binds each of \<open>links\<close>, \<open>details\<close> and \<open>commits\<close> to a list. An event of an unrecognized
  type gets the three empty lists and nothing else; a ref creation or deletion, whose own
  processing sets neither \<open>links\<close> nor \<open>commits\<close>, always gets a result.
\<close>

theorem process_event_three_keys:
  "(process_event event seen = Inr (p, seen') \<longrightarrow> has_three_keys p)
   \<and> (event_type event \<notin> set [''PushEvent'', ''PullRequestEvent'', ''IssueCommentEvent'',
         ''PullRequestReviewEvent'', ''CreateEvent'', ''DeleteEvent''] \<longrightarrow>
        process_event event seen = Inr (default_info, seen))
   \<and> (event_type event \<in> set [''CreateEvent'', ''DeleteEvent''] \<longrightarrow>
        (\<exists>q. process_event event seen = Inr (q, seen)))"
  using process_event_keys unknown_event_default ref_event_returns by blast

theorem process_event_three_keys_witness:
  "process_event delete_event {}
     = Inr ([(''links'', PList []),
             (''details'', PList [PStr (''Deleted branch '' @ [CHR 0x27] @ ''old'' @ [CHR 0x27])]),
             (''commits'', PList []),
             (''ref_type'', PStr ''branch''), (''ref'', PStr ''old''),
             (''action'', PStr ''deleted'')], {})
   \<and> has_three_keys
        [(''links'', PList []),
         (''details'', PList [PStr (''Deleted branch '' @ [CHR 0x27] @ ''old'' @ [CHR 0x27])]),
         (''commits'', PList []),
         (''ref_type'', PStr ''branch''), (''ref'', PStr ''old''),
         (''action'', PStr ''deleted'')]
   \<and> process_event watch_event {} = Inr (default_info, {})"
proof -
  have d: "process_event delete_event {}
     = Inr ([(''links'', PList []),
             (''details'', PList [PStr (''Deleted branch '' @ [CHR 0x27] @ ''old'' @ [CHR 0x27])]),
             (''commits'', PList []),
             (''ref_type'', PStr ''branch''), (''ref'', PStr ''old''),
             (''action'', PStr ''deleted'')], {})"
    by code_simp
  have w: "event_type watch_event \<notin> set [''PushEvent'', ''PullRequestEvent'',
             ''IssueCommentEvent'', ''PullRequestReviewEvent'', ''CreateEvent'', ''DeleteEvent'']"
    by (simp add: watch_event_def)
  from process_event_three_keys [of delete_event "{}" _ "{}"] d
  have "has_three_keys
        [(''links'', PList []),
         (''details'', PList [PStr (''Deleted branch '' @ [CHR 0x27] @ ''old'' @ [CHR 0x27])]),
         (''commits'', PList []),
         (''ref_type'', PStr ''branch''), (''ref'', PStr ''old''),
         (''action'', PStr ''deleted'')]"
    by blast
  moreover from process_event_three_keys [of watch_event "{}"] w
  have "process_event watch_event {} = Inr (default_info, {})"
    by blast
  ultimately show ?thesis using d by blast
qed

section \<open>Properties of the three renderings\<close>























subsection \<open>The format name\<close>

text \<open>
  C10. Every format name other than \<open>json\<close> and \<open>text\<close> gives the markdown report: the
  result for it is the result for \<open>markdown\<close>, whatever the collection.
\<close>

theorem format_standup_report_fallback:
  assumes "format_type \<noteq> ''json''" and "format_type \<noteq> ''text''"
  shows "format_standup_report github_activity format_type
           = format_standup_report github_activity ''markdown''
         \<and> format_standup_report github_activity format_type
           = format_markdown_report github_activity"
  using assms by (simp add: format_standup_report_def)

theorem format_standup_report_fallback_witness:
  "format_standup_report empty_day ''html''
     = Inr ''# Standup Summary - July 23, 2024\<newline>\<newline>No significant activity to report.\<newline>\<newline>---\<newline>''
   \<and> format_standup_report empty_day []
     = Inr ''# Standup Summary - July 23, 2024\<newline>\<newline>No significant activity to report.\<newline>\<newline>---\<newline>''"
proof -
  have "''html'' \<noteq> ''json''" and "''html'' \<noteq> ''text''"
    by simp_all
  from format_standup_report_fallback [OF this]
  have html: "format_standup_report empty_day ''html'' = format_markdown_report empty_day"
    by (rule conjunct2)
  have "[] \<noteq> ''json''" and "[] \<noteq> ''text''"
    by simp_all
  from format_standup_report_fallback [OF this]
  have none: "format_standup_report empty_day [] = format_markdown_report empty_day"
    by (rule conjunct2)
  show ?thesis
    unfolding html none by (simp add: markdown_empty_day)
qed

end
